theory Spec2Isabelle
  imports Main "HOL-Library.Sublist"
begin

section \<open>Python strings\<close>

text \<open>
  A Python \<open>str\<close> is a sequence of code points. The model keeps the code points below 256
  (the Latin-1 range), one \<^typ>\<open>char\<close> each, so \<^const>\<open>length\<close> is Python's \<open>len\<close>.
  \<open>needle in text\<close> on strings is \<^const>\<open>sublist\<close>, \<open>text[:n]\<close> is \<^const>\<open>take\<close>.
\<close>

definition isspace :: "char \<Rightarrow> bool" where
  \<comment> \<open>the characters \<open>str.split()\<close>, \<open>str.strip()\<close> and the regex class \<open>\s\<close> treat as whitespace\<close>
  "isspace c = (of_char c \<in> {9, 10, 11, 12, 13, 28, 29, 30, 31, 32, 133, 160 :: nat})"

definition lower_char :: "char \<Rightarrow> char" where
  \<comment> \<open>\<open>A\<close>..\<open>Z\<close> and the Latin-1 capitals (all of 192..222 but the multiplication sign 215)\<close>
  "lower_char c =
     (let n = of_char c :: nat
      in if 65 \<le> n \<and> n \<le> 90 then char_of (n + 32)
         else if 192 \<le> n \<and> n \<le> 214 then char_of (n + 32)
         else if 216 \<le> n \<and> n \<le> 222 then char_of (n + 32)
         else c)"

definition lower :: "string \<Rightarrow> string" where
  \<comment> \<open>\<open>str.lower()\<close>\<close>
  "lower s = map lower_char s"

definition strip :: "string \<Rightarrow> string" where
  \<comment> \<open>\<open>str.strip()\<close>: whitespace removed at both ends\<close>
  "strip s = rev (dropWhile isspace (rev (dropWhile isspace s)))"

fun split_from :: "string \<Rightarrow> string \<Rightarrow> string list" where
  \<comment> \<open>the scan of \<open>str.split()\<close>; the first argument is the token read so far\<close>
  "split_from cur [] = (if cur = [] then [] else [cur])"
| "split_from cur (c # cs) =
     (if isspace c then (if cur = [] then split_from [] cs else cur # split_from [] cs)
      else split_from (cur @ [c]) cs)"

definition split :: "string \<Rightarrow> string list" where
  \<comment> \<open>\<open>str.split()\<close> with no argument: the maximal runs of non-whitespace characters\<close>
  "split s = split_from [] s"

fun join :: "string \<Rightarrow> string list \<Rightarrow> string" where
  \<comment> \<open>\<open>sep.join(parts)\<close>\<close>
  "join sep [] = []"
| "join sep [x] = x"
| "join sep (x # y # ys) = x @ sep @ join sep (y # ys)"

section \<open>Benchmark identity (descriptions.py, feedback\_processor.py)\<close>

definition stop_words :: "string list" where
  "stop_words = [''we'', ''are'', ''the'', ''a'', ''an'', ''for'', ''of'', ''to'', ''in'', ''on'', ''is'',
                 ''please'', ''write'', ''analyzing'', ''looking'', ''describe'', ''description'']"

definition key_words :: "string \<Rightarrow> string list" where
  \<comment> \<open>\<open>[w for w in instructions.lower().split()[:20] if w not in stop_words and len(w) > 2]\<close>\<close>
  "key_words instructions =
     filter (\<lambda>w. w \<notin> set stop_words \<and> length w > 2) (take 20 (split (lower instructions)))"

definition extract_benchmark_name :: "string \<Rightarrow> string" where
  "extract_benchmark_name instructions =
     (let key_words = key_words instructions
      in if key_words \<noteq> [] then join ''_'' (take 3 key_words) else ''general'')"

definition extract_benchmark_name_from_file :: "string option \<Rightarrow> string" where
  \<comment> \<open>the argument is the text of \<open>task_instructions.txt\<close>, \<open>None\<close> when the file does not exist\<close>
  "extract_benchmark_name_from_file instructions_file =
     (case instructions_file of
        None \<Rightarrow> ''general''
      | Some text \<Rightarrow>
          (let content = lower text;
               words = take 20 (split content);
               key_words = filter (\<lambda>w. w \<notin> set stop_words \<and> length w > 2) words
           in if key_words \<noteq> [] then join ''_'' (take 3 key_words) else ''general''))"

subsection \<open>The identity as the specification words it\<close>

text \<open>
  Drop the tokens that are stop words or have length at most 2 and keep the first \<open>n\<close> that
  survive, in their order.
\<close>

fun first_surviving :: "nat \<Rightarrow> string list \<Rightarrow> string list" where
  "first_surviving n [] = []"
| "first_surviving n (t # ts) =
     (if n = 0 then []
      else if t \<in> set stop_words \<or> length t \<le> 2 then first_surviving n ts
      else t # first_surviving (n - 1) ts)"

definition spec_benchmark_identity :: "string \<Rightarrow> string" where
  "spec_benchmark_identity text =
     (let surviving = first_surviving 3 (take 20 (split (lower text)))
      in if surviving = [] then ''general'' else join ''_'' surviving)"

subsection \<open>\<open>load_instructions\<close>: the \<open>VISUAL_CHECK\<close> line\<close>

text \<open>
  The pattern is \<^verbatim>\<open>VISUAL_CHECK:\s*(.+?)(?:\n|$)\<close>, case-insensitive. At a position where the
  keyword stands, \<^verbatim>\<open>\s*\<close> takes the whole run of whitespace (newlines included). If a character
  follows the run, it is not a newline, and the lazy group takes it and everything up to the next
  newline or the end of the text; the newline, if any, belongs to the match. If the text ends with
  the run, \<^verbatim>\<open>\s*\<close> gives characters back until the group can start, that is at the last
  character of the run that is not a newline; there is no match here when the run has none.
\<close>

definition at_keyword :: "string \<Rightarrow> bool" where
  "at_keyword s = (lower (take 13 s) = ''visual_check:'')"

definition last_non_newline :: "string \<Rightarrow> nat option" where
  \<comment> \<open>the index of the last character that is not a newline\<close>
  "last_non_newline s =
     (let n = length (dropWhile (\<lambda>c. c = CHR 0x0A) (rev s))
      in if n = 0 then None else Some (n - 1))"

definition visual_match :: "string \<Rightarrow> (string \<times> nat) option" where
  \<comment> \<open>a match starting at the head of the text: its group 1 and its length\<close>
  "visual_match s =
     (if \<not> at_keyword s then None
      else
        let rest = drop 13 s;
            k = length (takeWhile isspace rest);
            start = (if k < length rest then Some k else last_non_newline rest)
        in case start of
             None \<Rightarrow> None
           | Some j \<Rightarrow>
               (let t = drop j rest;
                    grp = takeWhile (\<lambda>c. c \<noteq> CHR 0x0A) t
                in Some (grp, 13 + j + length grp + (if length grp < length t then 1 else 0))))"

fun search_visual :: "string \<Rightarrow> string option" where
  \<comment> \<open>\<open>re.search\<close>: group 1 of the leftmost match\<close>
  "search_visual [] = None"
| "search_visual (c # cs) =
     (case visual_match (c # cs) of
        Some (grp, n) \<Rightarrow> Some grp
      | None \<Rightarrow> search_visual cs)"

fun sub_from :: "nat \<Rightarrow> string \<Rightarrow> string" where
  \<comment> \<open>\<open>re.sub\<close> with the empty replacement; the first argument counts the characters of the
      current match still to be removed\<close>
  "sub_from skip [] = []"
| "sub_from (Suc skip) (c # cs) = sub_from skip cs"
| "sub_from 0 (c # cs) =
     (case visual_match (c # cs) of
        Some (grp, n) \<Rightarrow> sub_from (n - 1) cs
      | None \<Rightarrow> c # sub_from 0 cs)"

definition load_instructions :: "string option \<Rightarrow> string \<times> string" where
  \<comment> \<open>\<open>(main_instructions, visual_check)\<close>\<close>
  "load_instructions instructions_file =
     (case instructions_file of
        None \<Rightarrow> ([], [])
      | Some content \<Rightarrow>
          (case search_visual content of
             Some grp \<Rightarrow> (strip (sub_from 0 content), strip grp)
           | None \<Rightarrow> (strip content, [])))"

definition main_benchmark_name :: "string option \<Rightarrow> string option" where
  \<comment> \<open>steps 1 and 2 of \<open>main\<close>: the run stops (\<open>None\<close>) when no instructions are found\<close>
  "main_benchmark_name instructions_file =
     (let (instructions, visual_check) = load_instructions instructions_file
      in if instructions = [] then None else Some (extract_benchmark_name instructions))"

section \<open>Values, dictionaries and files\<close>

text \<open>
  A spreadsheet cell or a JSON scalar as the code meets it: a text, the \<open>nan\<close> that pandas
  gives for an empty cell, or \<open>None\<close>. Numbers are not modelled. A dictionary is an
  association list in insertion order; a JSON file holds a list of dictionaries.
\<close>

datatype pyval = Str string | NaN | Null

datatype py_error = AttributeError | TypeError

fun py_eq :: "pyval \<Rightarrow> pyval \<Rightarrow> bool" where
  \<comment> \<open>\<open>==\<close>; \<open>nan\<close> equals nothing, itself included\<close>
  "py_eq (Str a) (Str b) = (a = b)"
| "py_eq Null Null = True"
| "py_eq _ _ = False"

type_synonym pydict = "(string \<times> pyval) list"

definition get_or :: "pydict \<Rightarrow> string \<Rightarrow> pyval \<Rightarrow> pyval" where
  \<comment> \<open>\<open>d.get(key, default)\<close>\<close>
  "get_or d k dflt = (case map_of d k of Some v \<Rightarrow> v | None \<Rightarrow> dflt)"

definition get :: "pydict \<Rightarrow> string \<Rightarrow> pyval" where
  \<comment> \<open>\<open>d.get(key)\<close>\<close>
  "get d k = get_or d k Null"

datatype 'a stored = Absent | Unreadable | Content 'a

record row =
  URL :: pyval
  AI_Description :: pyval
  Your_Correction :: pyval
  Html_Snippet :: pyval

record table =
  columns :: "string list"
  rows :: "row list"

text \<open>
  The files the two programs share: the analysis spreadsheet (\<open>OUTPUT_FILE\<close>), the instructions
  file and the JSON files under their path names. A row carries a value for each of the four
  columns the code reads; the value of a column the table does not have is never read.
\<close>

record files =
  output_file :: "table stored"
  instructions_file :: "string option"
  json_files :: "string \<Rightarrow> pydict list stored"

definition load_json_file :: "files \<Rightarrow> string \<Rightarrow> pydict list" where
  \<comment> \<open>a missing file and a file that does not parse both read as the empty list\<close>
  "load_json_file fs filepath =
     (case json_files fs filepath of Content data \<Rightarrow> data | Absent \<Rightarrow> [] | Unreadable \<Rightarrow> [])"

definition save_json_file :: "files \<Rightarrow> string \<Rightarrow> pydict list \<Rightarrow> files" where
  "save_json_file fs filepath data = fs\<lparr>json_files := (json_files fs)(filepath := Content data)\<rparr>"

section \<open>Feedback processor (feedback\_processor.py)\<close>

record loop_state =
  training_data :: "pydict list"
  feedback_log :: "pydict list"
  new_examples :: nat
  clock_reads :: nat

definition same_example :: "pyval \<Rightarrow> pyval \<Rightarrow> pydict \<Rightarrow> bool" where
  \<comment> \<open>the duplicate test of step 6, for one stored record \<open>t\<close>\<close>
  "same_example url context t = (py_eq (get t ''url'') url \<and> py_eq (get t ''benchmark_context'') context)"

definition discrepancy :: "string \<Rightarrow> string \<Rightarrow> string" where
  "discrepancy ai_desc human_desc =
     ''AI said: '' @ [CHR 0x27] @ take 100 ai_desc @ ''...'' @ [CHR 0x27] @ '' vs Human said: '' @
     [CHR 0x27] @ take 100 human_desc @ ''...'' @ [CHR 0x27]"

definition training_record :: "string \<Rightarrow> pyval \<Rightarrow> pyval \<Rightarrow> string \<Rightarrow> string \<Rightarrow> string \<Rightarrow> pydict" where
  "training_record instructions url html_snippet ai_desc human_desc now =
     [(''benchmark_context'', Str (take 200 instructions)),
      (''url'', url),
      (''html_snippet'', html_snippet),
      (''ai_description'', Str ai_desc),
      (''human_description'', Str human_desc),
      (''timestamp'', Str now)]"

text \<open>
  One pass of the loop of step 6. \<open>now\<close> is the clock: \<open>now n\<close> is what the \<open>n\<close>-th call of
  \<open>datetime.now().isoformat()\<close> of the run returns. \<open>has_html\<close> says whether the table has an
  \<open>Html_Snippet\<close> column (\<open>row.get('Html_Snippet', '')\<close>). \<open>.strip()\<close> on a value that is not a
  text raises \<open>AttributeError\<close>, which ends the run before anything is saved.
\<close>

definition process_row ::
  "(nat \<Rightarrow> string) \<Rightarrow> string \<Rightarrow> bool \<Rightarrow> row \<Rightarrow> loop_state \<Rightarrow> py_error + loop_state" where
  "process_row now instructions has_html r st =
     (let url = URL r;
          html_snippet = (if has_html then Html_Snippet r else Str [])
      in case AI_Description r of
           Str ai_desc \<Rightarrow>
             (case Your_Correction r of
                Str human_desc \<Rightarrow>
                  if strip ai_desc = strip human_desc then Inr st
                  else
                    let new_record = training_record instructions url html_snippet ai_desc human_desc
                                   (now (clock_reads st));
                        st1 = st\<lparr>clock_reads := Suc (clock_reads st)\<rparr>;
                        st2 = (if list_ex (same_example url (Str (take 200 instructions)))
                                    (training_data st1)
                               then st1
                               else st1\<lparr>training_data := training_data st1 @ [new_record],
                                        new_examples := Suc (new_examples st1)\<rparr>);
                        feedback_record = new_record @ [(''discrepancy'', Str (discrepancy ai_desc human_desc))]
                    in Inr (st2\<lparr>feedback_log := feedback_log st2 @ [feedback_record]\<rparr>)
              | NaN \<Rightarrow> Inl AttributeError
              | Null \<Rightarrow> Inl AttributeError)
         | NaN \<Rightarrow> Inl AttributeError
         | Null \<Rightarrow> Inl AttributeError)"

fun process_rows ::
  "(nat \<Rightarrow> string) \<Rightarrow> string \<Rightarrow> bool \<Rightarrow> row list \<Rightarrow> loop_state \<Rightarrow> py_error + loop_state" where
  "process_rows now instructions has_html [] st = Inr st"
| "process_rows now instructions has_html (r # rs) st =
     (case process_row now instructions has_html r st of
        Inl e \<Rightarrow> Inl e
      | Inr st' \<Rightarrow> process_rows now instructions has_html rs st')"

definition required_cols :: "string list" where
  "required_cols = [''URL'', ''AI_Description'', ''Your_Correction'']"

definition has_correction :: "row \<Rightarrow> bool" where
  \<comment> \<open>\<open>df['Your_Correction'].notna() & (df['Your_Correction'] != '')\<close>\<close>
  "has_correction r =
     (case Your_Correction r of Str s \<Rightarrow> s \<noteq> [] | NaN \<Rightarrow> False | Null \<Rightarrow> False)"

definition training_file_of :: "string \<Rightarrow> string" where
  "training_file_of benchmark_name = ''learning/training_'' @ benchmark_name @ ''.json''"

definition feedback_log_file :: string where
  "feedback_log_file = ''learning/feedback_log.json''"

definition process_feedback :: "(nat \<Rightarrow> string) \<Rightarrow> files \<Rightarrow> py_error + files" where
  \<comment> \<open>the files after the run; a run that stops early leaves them as they are\<close>
  "process_feedback now fs =
     (case output_file fs of
        Absent \<Rightarrow> Inr fs
      | Unreadable \<Rightarrow> Inr fs
      | Content df \<Rightarrow>
          if list_ex (\<lambda>col. col \<notin> set (columns df)) required_cols then Inr fs
          else
            let corrections = filter has_correction (rows df)
            in if corrections = [] then Inr fs
               else
                 let benchmark_name = extract_benchmark_name_from_file (instructions_file fs);
                     instructions = (case instructions_file fs of
                                       Some text \<Rightarrow> strip text | None \<Rightarrow> []);
                     training_file = training_file_of benchmark_name;
                     start = \<lparr>training_data = load_json_file fs training_file,
                              feedback_log = load_json_file fs feedback_log_file,
                              new_examples = 0, clock_reads = 0\<rparr>
                 in case process_rows now instructions (''Html_Snippet'' \<in> set (columns df))
                           corrections start of
                      Inl e \<Rightarrow> Inl e
                    | Inr st \<Rightarrow>
                        Inr (save_json_file (save_json_file fs training_file (training_data st))
                               feedback_log_file (feedback_log st)))"

section \<open>Signal extractor (scrapers/signal\_extractor.py)\<close>

text \<open>
  The parsed page, as far as \<open>find_all\<close> looks at it: its elements in document order, each with
  its tag name, its \<open>class\<close> attribute (a list of tokens, the attribute being multi-valued), its
  \<open>id\<close> and \<open>href\<close> attributes and its markup (\<open>str(element)\<close>), and its text nodes. An
  attribute filter given as a function is applied to each token of a multi-valued attribute and
  then to the tokens joined by a blank; an element without the attribute does not match.
\<close>

record element =
  tag :: string
  class_attr :: "string list option"
  id_attr :: "string option"
  href_attr :: "string option"
  markup :: string

record soup =
  elements :: "element list"
  strings :: "string list"

record ui_signals =
  has_shopping_cart :: bool
  has_job_board :: bool
  detected_elements :: "string list"
  custom_check_result :: string

definition attr_test :: "string \<Rightarrow> string \<Rightarrow> bool" where
  \<comment> \<open>\<open>lambda x: x and pattern in x.lower() if x else False\<close>, on a text\<close>
  "attr_test pattern x = (x \<noteq> [] \<and> sublist pattern (lower x))"

definition class_matches :: "string \<Rightarrow> element \<Rightarrow> bool" where
  "class_matches pattern e =
     (case class_attr e of
        None \<Rightarrow> False
      | Some tokens \<Rightarrow> list_ex (attr_test pattern) tokens \<or> attr_test pattern (join '' '' tokens))"

definition id_matches :: "string \<Rightarrow> element \<Rightarrow> bool" where
  "id_matches pattern e = (case id_attr e of None \<Rightarrow> False | Some v \<Rightarrow> attr_test pattern v)"

definition href_matches :: "string \<Rightarrow> element \<Rightarrow> bool" where
  "href_matches pattern e = (case href_attr e of None \<Rightarrow> False | Some v \<Rightarrow> attr_test pattern v)"

definition cart_patterns :: "string list" where
  "cart_patterns = [''cart'', ''basket'', ''shopping-cart'', ''shopping_cart'',
                    ''add-to-cart'', ''addtocart'', ''buy-now'', ''checkout'',
                    ''shop'', ''store'', ''e-commerce'', ''ecommerce'']"

fun cart_search :: "soup \<Rightarrow> string list \<Rightarrow> string option" where
  \<comment> \<open>the first loop: the note of the first pattern that finds anything\<close>
  "cart_search page [] = None"
| "cart_search page (pattern # patterns) =
     (if filter (class_matches pattern) (elements page) \<noteq> []
        then Some (''cart-indicator: '' @ pattern)
      else if filter (id_matches pattern) (elements page) \<noteq> []
        then Some (''cart-id: '' @ pattern)
      else if filter (\<lambda>e. tag e \<in> set [''i'', ''span'', ''svg''] \<and> class_matches pattern e)
                (elements page) \<noteq> []
        then Some (''cart-icon: '' @ pattern)
      else cart_search page patterns)"

definition job_patterns :: "string list" where
  "job_patterns = [''careers'', ''jobs'', ''vacancies'', ''hiring'', ''join-us'', ''join-our-team'']"

definition replace_char :: "char \<Rightarrow> char \<Rightarrow> string \<Rightarrow> string" where
  \<comment> \<open>\<open>str.replace\<close> of one character by another\<close>
  "replace_char a b s = map (\<lambda>c. if c = a then b else c) s"

fun job_search :: "soup \<Rightarrow> string list \<Rightarrow> string option" where
  "job_search page [] = None"
| "job_search page (pattern # patterns) =
     (if filter (\<lambda>e. tag e = ''a'' \<and> href_matches pattern e) (elements page) \<noteq> []
        then Some (''job-board: '' @ pattern)
      else if filter (attr_test (replace_char (CHR ''-'') (CHR '' '') pattern)) (strings page) \<noteq> []
        then Some (''job-mention: '' @ pattern)
      else job_search page patterns)"

definition process_custom_visual_check :: "soup \<Rightarrow> string \<Rightarrow> string" where
  "process_custom_visual_check page instruction =
     (let instruction_lower = lower instruction;
          findings =
            (if sublist ''shopping cart'' instruction_lower \<or> sublist ''cart icon'' instruction_lower
             then (if filter (class_matches ''cart'') (elements page) \<noteq> []
                   then [''Shopping cart element detected'']
                   else [''No shopping cart element found''])
             else []) @
            (if sublist ''contact form'' instruction_lower
             then (if filter (\<lambda>f. tag f = ''form'' \<and>
                                  (sublist ''contact'' (lower (markup f)) \<or>
                                   sublist ''message'' (lower (markup f))))
                        (elements page) \<noteq> []
                   then [''Contact form detected'']
                   else [''No contact form found''])
             else []) @
            (if sublist ''product'' instruction_lower \<and> sublist ''page'' instruction_lower
             then (if filter (class_matches ''product'') (elements page) \<noteq> []
                   then [''Product pages detected'']
                   else [''No product page indicators found''])
             else [])
      in if findings \<noteq> [] then join ''; '' findings
         else ''Custom check performed, no specific findings'')"

definition notes_of :: "string option \<Rightarrow> string list" where
  "notes_of found = (case found of None \<Rightarrow> [] | Some note \<Rightarrow> [note])"

definition extract_ui_signals :: "soup \<Rightarrow> string \<Rightarrow> ui_signals" where
  "extract_ui_signals page visual_check =
     (let cart = cart_search page cart_patterns;
          job = job_search page job_patterns
      in \<lparr>has_shopping_cart = (cart \<noteq> None),
          has_job_board = (job \<noteq> None),
          detected_elements = notes_of cart @ notes_of job,
          custom_check_result =
            (if strip visual_check \<noteq> [] then process_custom_visual_check page visual_check
             else [])\<rparr>)"

section \<open>Prompt builder (ai/prompt\_builder.py)\<close>

text \<open>
  \<open>website_data\<close> and \<open>ui_signals\<close> are read with \<open>.get\<close> only, so a missing key is the
  empty value of its field, and an empty \<open>ui_signals\<close> dictionary is \<open>None\<close>. Three literals of
  the source start with characters above 255; those are written as their UTF-8 bytes.
\<close>

record website_data =
  text_content :: string
  nav_links :: "string list"
  meta_description :: string
  error :: "string option"

fun fmt :: "pyval \<Rightarrow> string" where
  \<comment> \<open>a value inside an f-string\<close>
  "fmt (Str s) = s"
| "fmt NaN = ''nan''"
| "fmt Null = ''None''"

fun slice_to :: "nat \<Rightarrow> pyval \<Rightarrow> py_error + string" where
  \<comment> \<open>\<open>value[:n]\<close>: only a text can be sliced\<close>
  "slice_to n (Str s) = Inr (take n s)"
| "slice_to n NaN = Inl TypeError"
| "slice_to n Null = Inl TypeError"

fun str_nat :: "nat \<Rightarrow> string" where
  \<comment> \<open>a number inside an f-string: its decimal digits\<close>
  "str_nat n = (if n < 10 then [char_of (48 + n)] else str_nat (n div 10) @ [char_of (48 + n mod 10)])"

declare str_nat.simps [simp del]

definition example_block :: "nat \<Rightarrow> pydict \<Rightarrow> py_error + string" where
  "example_block i ex =
     (case slice_to 150 (get_or ex ''html_snippet'' (get_or ex ''content_snippet'' (Str []))) of
        Inl e \<Rightarrow> Inl e
      | Inr snippet \<Rightarrow>
          Inr (''\<newline>--- Example '' @ str_nat i @ '' ---\<newline>Instructions Used: '' @
               fmt (get_or ex ''benchmark_context'' (Str ''N/A'')) @
               ''\<newline>Website Snippet: '' @ [CHR 0x22] @ snippet @ ''...'' @ [CHR 0x22] @
               ''\<newline>Correct Output: '' @
               fmt (get_or ex ''human_description'' (get_or ex ''description'' (Str []))) @
               ''\<newline>--- End Example '' @ str_nat i @ '' ---\<newline>''))"

fun example_blocks :: "nat \<Rightarrow> pydict list \<Rightarrow> py_error + string" where
  \<comment> \<open>the loop over \<open>enumerate(training_examples, i)\<close>\<close>
  "example_blocks i [] = Inr []"
| "example_blocks i (ex # exs) =
     (case example_block i ex of
        Inl e \<Rightarrow> Inl e
      | Inr block \<Rightarrow>
          (case example_blocks (Suc i) exs of
             Inl e \<Rightarrow> Inl e
           | Inr blocks \<Rightarrow> Inr (block @ blocks)))"

definition examples_section :: "pydict list \<Rightarrow> py_error + string" where
  "examples_section training_examples =
     (if training_examples \<noteq> []
      then (case example_blocks 1 training_examples of
              Inl e \<Rightarrow> Inl e
            | Inr blocks \<Rightarrow>
                Inr (''REFERENCE EXAMPLES (Match this writing style and analysis depth):\<newline>'' @ blocks))
      else Inr [])"

definition mistake_mark :: string where
  "mistake_mark = [CHR 0xE2, CHR 0xC5, CHR 0xA1, CHR 0xA0, CHR 0xEF, CHR 0xB8]"

definition retail_mark :: string where
  "retail_mark = [CHR 0xE2, CHR 0xC5, CHR 0xA1, CHR 0xA1]"

definition careers_mark :: string where
  "careers_mark = [CHR 0xF0, CHR 0xC5, CHR 0xB8, CHR 0xE2, CHR 0x80, CHR 0x9C, CHR 0xE2, CHR 0x80, CHR 0xB9]"

definition mistake_block :: "pydict \<Rightarrow> string" where
  "mistake_block pattern =
     ''\<newline>- Pattern: '' @ [CHR 0x22] @ fmt (get_or pattern ''pattern'' (Str [])) @ [CHR 0x22] @
     ''\<newline>  WRONG conclusion: '' @ fmt (get_or pattern ''wrong_conclusion'' (Str [])) @
     ''\<newline>  CORRECT conclusion: '' @ fmt (get_or pattern ''correct_conclusion'' (Str [])) @
     ''\<newline>''"

definition mistakes_section :: "pydict list \<Rightarrow> string" where
  "mistakes_section mistake_patterns =
     (if mistake_patterns \<noteq> []
      then ''\<newline>'' @ mistake_mark @ '' COMMON MISTAKES TO AVOID:\<newline>'' @
           concat (map mistake_block mistake_patterns)
      else [])"

definition relevant_keywords :: "string list" where
  "relevant_keywords = [''r&d'', ''research'', ''product'', ''service'', ''about'',
                        ''shop'', ''store'', ''career'', ''contact'', ''solution'',
                        ''manufacture'', ''develop'', ''wholesale'', ''retail'']"

definition relevant :: "string \<Rightarrow> bool" where
  \<comment> \<open>\<open>any(kw in link.lower() for kw in relevant_keywords)\<close>\<close>
  "relevant link = list_ex (\<lambda>kw. sublist kw (lower link)) relevant_keywords"

definition nav_sections :: "website_data \<Rightarrow> string list" where
  "nav_sections wd =
     (if nav_links wd \<noteq> []
      then (let filtered_links = filter relevant (take 30 (nav_links wd))
            in if filtered_links \<noteq> []
               then [''NAVIGATION LINKS DETECTED: '' @ join '', '' (take 15 filtered_links)]
               else [])
      else [])"

definition signal_sections :: "website_data \<Rightarrow> ui_signals option \<Rightarrow> string list" where
  \<comment> \<open>the list \<open>sections\<close> when \<open>build_signals_section\<close> joins it\<close>
  "signal_sections wd ui =
     nav_sections wd @
     (if meta_description wd \<noteq> [] then [''META DESCRIPTION: '' @ meta_description wd] else []) @
     (case ui of
        None \<Rightarrow> []
      | Some u \<Rightarrow>
          (if has_shopping_cart u
           then [retail_mark @ '' RETAIL INDICATOR: Shopping cart/e-commerce elements detected'']
           else []) @
          (if has_job_board u
           then [careers_mark @ '' CAREERS SECTION: Job board/hiring page detected'']
           else []) @
          (if detected_elements u \<noteq> []
           then [''UI ELEMENTS: '' @ join '', '' (take 5 (detected_elements u))]
           else []))"

definition build_signals_section :: "website_data \<Rightarrow> ui_signals option \<Rightarrow> string" where
  "build_signals_section wd ui =
     (let sections = signal_sections wd ui
      in if sections \<noteq> [] then join ''\<newline>'' sections else [])"

definition visual_section :: "string \<Rightarrow> ui_signals option \<Rightarrow> string" where
  "visual_section visual_check ui =
     (if strip visual_check \<noteq> []
      then ''\<newline>VISUAL CHECK REQUESTED:\<newline>'' @ visual_check @ ''\<newline>'' @
           (case ui of
              None \<Rightarrow> []
            | Some u \<Rightarrow>
                if custom_check_result u \<noteq> []
                then ''Detection Result: '' @ custom_check_result u @ ''\<newline>''
                else [])
      else [])"

definition prompt_text :: "string \<Rightarrow> string \<Rightarrow> string \<Rightarrow> string \<Rightarrow> string \<Rightarrow> string \<Rightarrow> string" where
  \<comment> \<open>the final f-string of \<open>build_prompt\<close>\<close>
  "prompt_text instructions visual examples mistakes signals text =
     ''ROLE:\<newline>You are an expert business analyst specializing in company benchmarking studies.\<newline>\<newline>THE MISSION (Instructions for this benchmark):\<newline>'' @
     instructions @ ''\<newline>'' @ visual @ ''\<newline>'' @ examples @ ''\<newline>'' @ mistakes @
     ''\<newline>--------------------------------------------------\<newline>\<newline>CURRENT TASK:\<newline>Analyze the website content below and strictly follow 'The Mission'.\<newline>\<newline>'' @
     signals @ ''\<newline>\<newline>WEBSITE TEXT CONTENT:\<newline>'' @ text @
     ''\<newline>\<newline>OUTPUT:\<newline>Provide your analysis following the mission instructions exactly.\<newline>''"

definition build_prompt ::
  "website_data \<Rightarrow> string \<Rightarrow> string \<Rightarrow> pydict list \<Rightarrow> pydict list \<Rightarrow> ui_signals option
     \<Rightarrow> py_error + string" where
  "build_prompt wd instructions visual_check training_examples mistake_patterns ui =
     (case examples_section training_examples of
        Inl e \<Rightarrow> Inl e
      | Inr examples \<Rightarrow>
          Inr (prompt_text instructions (visual_section visual_check ui) examples
                 (mistakes_section mistake_patterns) (build_signals_section wd ui)
                 (text_content wd)))"

definition specific_file :: "string \<Rightarrow> string" where
  \<comment> \<open>the benchmark's file in \<open>load_training_examples\<close>: \<open>os.path.join\<close> of the directory
      \<open>learning\<close> and the file name\<close>
  "specific_file benchmark_name =
     ''learning'' @ ''/'' @ ''training_'' @
     replace_char (CHR '' '') (CHR ''_'') (lower benchmark_name) @ ''.json''"

definition load_training_examples :: "files \<Rightarrow> string \<Rightarrow> pydict list" where
  \<comment> \<open>the examples of the benchmark's file, then those of \<open>training_examples.json\<close>\<close>
  "load_training_examples fs benchmark_name =
     (case json_files fs (specific_file benchmark_name) of
        Content examples \<Rightarrow> examples | Absent \<Rightarrow> [] | Unreadable \<Rightarrow> []) @
     (case json_files fs ''training_examples.json'' of
        Content generic_examples \<Rightarrow> generic_examples | Absent \<Rightarrow> [] | Unreadable \<Rightarrow> [])"

section \<open>The failure sentinel (descriptions.py, retry\_failed.py)\<close>

definition website_down :: string where
  "website_down = ''The Company's website does not work''"

text \<open>
  The generative model is a function from the prompt to the text of its response, or to the
  message of the exception it raises; \<open>None\<close> when no API key is configured. The result is the
  description together with the prompts that were sent to the model.
\<close>

definition generate_ai_description ::
  "(string \<Rightarrow> string + string) option \<Rightarrow> website_data \<Rightarrow> ui_signals option \<Rightarrow> string \<Rightarrow> string
     \<Rightarrow> pydict list \<Rightarrow> pydict list \<Rightarrow> py_error + string \<times> string list" where
  "generate_ai_description model wd ui instructions visual_check training_examples mistake_patterns =
     (case model of
        None \<Rightarrow> Inr (website_down, [])
      | Some generate_content \<Rightarrow>
          (case error wd of
             Some (c # cs) \<Rightarrow> Inr (website_down, [])
           | _ \<Rightarrow>
               (case build_prompt wd instructions visual_check training_examples mistake_patterns ui of
                  Inl e \<Rightarrow> Inl e
                | Inr prompt \<Rightarrow>
                    (case generate_content prompt of
                       Inr text \<Rightarrow> Inr (strip text, [prompt])
                     | Inl e \<Rightarrow> Inr (''AI Generation Error: '' @ e, [prompt])))))"

definition failed_indices :: "table \<Rightarrow> nat list" where
  \<comment> \<open>\<open>retry_failed\<close>: the rows whose \<open>AI_Description\<close> is the sentinel\<close>
  "failed_indices df =
     filter (\<lambda>i. py_eq (AI_Description (rows df ! i)) (Str website_down)) [0..<length (rows df)]"

section \<open>Notions used in the claims about the feedback processor\<close>

text \<open>
  The records of a store that the duplicate test takes for a URL and a benchmark context, and
  the rows whose correction is a text that differs, after trimming, from the AI description.
\<close>

definition examples_for :: "pyval \<Rightarrow> string \<Rightarrow> pydict list \<Rightarrow> pydict list" where
  "examples_for url context store = filter (same_example url (Str context)) store"

definition differing :: "row \<Rightarrow> bool" where
  "differing r =
     (case AI_Description r of
        Str ai_desc \<Rightarrow>
          (case Your_Correction r of
             Str human_desc \<Rightarrow> strip ai_desc \<noteq> strip human_desc
           | NaN \<Rightarrow> False | Null \<Rightarrow> False)
      | NaN \<Rightarrow> False | Null \<Rightarrow> False)"

text \<open>
  The parts of a run of \<open>process_feedback\<close>, as functions of the files it starts from: the
  rows it processes (none when it stops before step 4), the instructions it reads, the training
  file it loads and saves, and the state in which the loop starts.
\<close>

definition corrections :: "files \<Rightarrow> row list" where
  "corrections fs =
     (case output_file fs of
        Content df \<Rightarrow>
          if list_ex (\<lambda>col. col \<notin> set (columns df)) required_cols then []
          else filter has_correction (rows df)
      | Absent \<Rightarrow> []
      | Unreadable \<Rightarrow> [])"

definition read_instructions :: "files \<Rightarrow> string" where
  "read_instructions fs = (case instructions_file fs of Some text \<Rightarrow> strip text | None \<Rightarrow> [])"

definition benchmark_context :: "files \<Rightarrow> string" where
  "benchmark_context fs = take 200 (read_instructions fs)"

definition training_file :: "files \<Rightarrow> string" where
  "training_file fs = training_file_of (extract_benchmark_name_from_file (instructions_file fs))"

definition has_html_snippet :: "files \<Rightarrow> bool" where
  "has_html_snippet fs =
     (case output_file fs of
        Content df \<Rightarrow> ''Html_Snippet'' \<in> set (columns df)
      | Absent \<Rightarrow> False
      | Unreadable \<Rightarrow> False)"

definition start_state :: "files \<Rightarrow> loop_state" where
  "start_state fs =
     \<lparr>training_data = load_json_file fs (training_file fs),
      feedback_log = load_json_file fs feedback_log_file,
      new_examples = 0, clock_reads = 0\<rparr>"

definition examples_in :: "pyval \<Rightarrow> files \<Rightarrow> string \<Rightarrow> nat" where
  \<comment> \<open>how many records of a JSON file are for the URL and the benchmark context of the run\<close>
  "examples_in url fs filepath =
     length (examples_for url (benchmark_context fs) (load_json_file fs filepath))"

definition differing_for :: "pyval \<Rightarrow> files \<Rightarrow> nat" where
  \<comment> \<open>how many of the processed rows have this URL and a correction that differs\<close>
  "differing_for url fs = length (filter (\<lambda>r. differing r \<and> URL r = url) (corrections fs))"

definition text_row :: "row \<Rightarrow> bool" where
  \<comment> \<open>the AI description and the correction are both texts, so \<open>.strip()\<close> does not raise\<close>
  "text_row r =
     (case AI_Description r of
        Str ai_desc \<Rightarrow> (case Your_Correction r of Str human_desc \<Rightarrow> True | NaN \<Rightarrow> False | Null \<Rightarrow> False)
      | NaN \<Rightarrow> False | Null \<Rightarrow> False)"

section \<open>Inputs used in the examples\<close>

definition visual_check_file :: string where
  "visual_check_file = ''VISUAL_CHECK: cart icon\<newline>retail companies research''"

definition cart_button :: element where
  "cart_button = \<lparr>tag = ''button'', class_attr = Some [''add-to-cart-btn''],
                   id_attr = None, href_attr = None, markup = []\<rparr>"

definition cart_page :: soup where
  "cart_page = \<lparr>elements = [cart_button], strings = []\<rparr>"

definition sentinel_row :: row where
  "sentinel_row = \<lparr>URL = Str ''a.com'', AI_Description = Str ''The Company's website does not work'',
                    Your_Correction = NaN, Html_Snippet = NaN\<rparr>"

definition other_row :: row where
  "other_row = \<lparr>URL = Str ''b.com'', AI_Description = Str ''A retailer.'',
                 Your_Correction = NaN, Html_Snippet = NaN\<rparr>"

definition dead_site :: website_data where
  "dead_site = \<lparr>text_content = [], nav_links = [], meta_description = [],
                 error = Some ''Scraping Error: timeout''\<rparr>"

definition retry_table :: table where
  "retry_table = \<lparr>columns = [''URL'', ''AI_Description''], rows = [other_row, sentinel_row]\<rparr>"

definition late_links :: "string list" where
  "late_links = replicate 30 ''Blog'' @ [''Shop'', ''About us'', ''Careers''] @ replicate 7 ''Blog''"

definition late_site :: website_data where
  "late_site = \<lparr>text_content = [], nav_links = late_links, meta_description = [], error = None\<rparr>"

definition early_site :: website_data where
  "early_site = \<lparr>text_content = [],
                  nav_links = [''Shop'', ''Blog'', ''About us'', ''Careers''] @ replicate 36 ''Blog'',
                  meta_description = [], error = None\<rparr>"

definition plain_site :: website_data where
  "plain_site = \<lparr>text_content = ''We sell shoes.'', nav_links = [''Shop''],
                  meta_description = ''Shoes'', error = None\<rparr>"

definition shop_row :: row where
  "shop_row = \<lparr>URL = Str ''shop.example'', AI_Description = Str ''A retailer.'',
                Your_Correction = Str ''An online shoe retailer.'', Html_Snippet = NaN\<rparr>"

definition agreed_row :: row where
  "agreed_row = \<lparr>URL = Str ''bank.example'', AI_Description = Str ''A bank.'',
                  Your_Correction = Str '' A bank. '', Html_Snippet = NaN\<rparr>"

definition old_example :: pydict where
  "old_example = [(''benchmark_context'', Str ''retail shops''), (''url'', Str ''old.example''),
                  (''human_description'', Str ''A grocer.'')]"

definition feedback_table :: table where
  "feedback_table = \<lparr>columns = [''URL'', ''AI_Description'', ''Your_Correction''],
                      rows = [shop_row, agreed_row, shop_row]\<rparr>"

definition feedback_files :: files where
  "feedback_files =
     \<lparr>output_file = Content feedback_table,
      instructions_file = Some ''retail shops'',
      json_files = (\<lambda>filepath. Absent)(''learning/training_retail_shops.json'' := Content [old_example])\<rparr>"

definition clock :: "nat \<Rightarrow> string" where
  "clock n = ''2024-05-0'' @ [char_of (49 + n)]"

section \<open>Properties of the benchmark identity\<close>

lemma first_surviving_filter:
  "first_surviving n ts = take n (filter (\<lambda>w. w \<notin> set stop_words \<and> length w > 2) ts)"
proof (induction ts arbitrary: n)
  case Nil
  show ?case by simp
next
  case (Cons t ts)
  show ?case
  proof (cases n)
    case 0
    then show ?thesis by simp
  next
    case (Suc m)
    then show ?thesis using Cons.IH by (auto simp: not_le)
  qed
qed

lemma join_Cons_nonempty: "x \<noteq> [] \<Longrightarrow> join sep (x # xs) \<noteq> []"
  by (cases xs) simp_all

lemma join_three: "join sep [a, b, c] = a @ sep @ b @ sep @ c"
  by simp

lemma key_words_long: "w \<in> set (key_words s) \<Longrightarrow> 2 < length w \<and> w \<notin> set stop_words"
  by (auto simp: key_words_def)

lemma key_words_subseq: "subseq (take n (key_words s)) (take 20 (split (lower s)))"
proof -
  have "subseq (take n (key_words s)) (key_words s)"
    by (rule prefix_imp_subseq [OF take_is_prefix])
  moreover have "subseq (key_words s) (take 20 (split (lower s)))"
    by (simp add: key_words_def)
  ultimately show ?thesis by (rule subseq_order.order_trans)
qed

text \<open>
  Claim C5. For every instruction text, \<open>extract_benchmark_name\<close> computes the function the
  specification describes (lowercase, split on whitespace, first 20 tokens, drop stop words and
  tokens of length at most 2, join the first 3 survivors with an underscore). When at least three
  tokens survive, the result is three of the tokens, in their order in the text, joined by
  underscores; when none survives it is \<open>general\<close>; it is never empty.
\<close>

theorem extract_benchmark_name_spec:
  "extract_benchmark_name s = spec_benchmark_identity s
   \<and> (3 \<le> length (key_words s) \<longrightarrow>
        (\<exists>a b c. extract_benchmark_name s = a @ ''_'' @ b @ ''_'' @ c
                 \<and> subseq [a, b, c] (take 20 (split (lower s)))
                 \<and> [a, b, c] = take 3 (key_words s)))
   \<and> (key_words s = [] \<longrightarrow> extract_benchmark_name s = ''general'')
   \<and> extract_benchmark_name s \<noteq> []"
proof (intro conjI impI)
  show "extract_benchmark_name s = spec_benchmark_identity s"
    by (simp add: extract_benchmark_name_def spec_benchmark_identity_def first_surviving_filter
        key_words_def Let_def)
next
  assume len: "3 \<le> length (key_words s)"
  then obtain a b c rest where kw: "key_words s = a # b # c # rest"
    by (auto simp: numeral_3_eq_3 Suc_le_length_iff)
  have "extract_benchmark_name s = a @ ''_'' @ b @ ''_'' @ c"
    by (simp add: extract_benchmark_name_def kw)
  moreover have "subseq [a, b, c] (take 20 (split (lower s)))"
    using key_words_subseq [of 3 s] by (simp add: kw)
  moreover have "[a, b, c] = take 3 (key_words s)" by (simp add: kw)
  ultimately show "\<exists>a b c. extract_benchmark_name s = a @ ''_'' @ b @ ''_'' @ c
                 \<and> subseq [a, b, c] (take 20 (split (lower s)))
                 \<and> [a, b, c] = take 3 (key_words s)" by blast
next
  assume "key_words s = []"
  then show "extract_benchmark_name s = ''general''" by (simp add: extract_benchmark_name_def)
next
  show "extract_benchmark_name s \<noteq> []"
  proof (cases "key_words s")
    case Nil
    then show ?thesis by (simp add: extract_benchmark_name_def)
  next
    case (Cons w ws)
    then have "w \<noteq> []" using key_words_long [of w s] by auto
    then have "join ''_'' (take 3 (w # ws)) \<noteq> []"
      by (simp add: numeral_3_eq_3 join_Cons_nonempty)
    then show ?thesis by (simp add: extract_benchmark_name_def Cons)
  qed
qed

lemma kw_example: "key_words ''We are analyzing retail e-commerce companies for market research''
   = [''retail'', ''e-commerce'', ''companies'', ''market'', ''research'']"
  by code_simp

lemma kw_example2: "key_words ''We are in'' = []"
  by code_simp

text \<open>Claim C5 at two texts: one with five surviving tokens, one with none.\<close>

theorem extract_benchmark_name_spec_witness:
  "3 \<le> length (key_words ''We are analyzing retail e-commerce companies for market research'')
   \<and> (\<exists>a b c. extract_benchmark_name ''We are analyzing retail e-commerce companies for market research''
                  = a @ ''_'' @ b @ ''_'' @ c
              \<and> subseq [a, b, c]
                   (take 20 (split (lower ''We are analyzing retail e-commerce companies for market research'')))
              \<and> [a, b, c] =
                   take 3 (key_words ''We are analyzing retail e-commerce companies for market research''))
   \<and> key_words ''We are in'' = []
   \<and> extract_benchmark_name ''We are in'' = ''general''"
proof -
  have h1: "3 \<le> length (key_words ''We are analyzing retail e-commerce companies for market research'')"
    by (simp add: kw_example)
  have h2: "key_words ''We are in'' = []"
    by (rule kw_example2)
  show ?thesis
    using h1 h2
      extract_benchmark_name_spec [of "''We are analyzing retail e-commerce companies for market research''"]
      extract_benchmark_name_spec [of "''We are in''"]
    by blast
qed

text \<open>
  Claim C6. The specification's example: the instructions
  \<open>We are analyzing retail e-commerce companies for market research\<close> do not give the identity
  \<open>analyzing_retail_e\<close> (\<open>analyzing\<close> is a stop word, and tokens are split at whitespace only).
\<close>

theorem identity_example_counterexample:
  "extract_benchmark_name ''We are analyzing retail e-commerce companies for market research''
     \<noteq> ''analyzing_retail_e''"
  by code_simp

text \<open>
  Claim C6, as amended: the identity of these instructions is \<open>retail_e-commerce_companies\<close>.
\<close>

theorem identity_example:
  "extract_benchmark_name ''We are analyzing retail e-commerce companies for market research''
     = ''retail_e-commerce_companies''"
  by code_simp

section \<open>The identity of the two programs\<close>

text \<open>
  Trimming a text does not change its tokens, and lowercasing does not change what is
  whitespace; so the two programs derive the same identity from a file in which the pattern of
  the \<open>VISUAL_CHECK\<close> line finds nothing.
\<close>

lemma isspace_lower_char: "isspace (lower_char c) = isspace c"
  by (auto simp: isspace_def lower_char_def Let_def)

lemma lower_dropWhile: "lower (dropWhile isspace s) = dropWhile isspace (lower s)"
  by (induction s) (simp_all add: lower_def isspace_lower_char)

lemma lower_rev: "lower (rev s) = rev (lower s)"
  by (simp add: lower_def rev_map)

lemma lower_strip: "lower (strip s) = strip (lower s)"
  by (simp add: strip_def lower_rev lower_dropWhile)

lemma split_from_spaces:
  assumes "\<forall>c \<in> set ws. isspace c"
  shows "split_from cur ws = (if cur = [] then [] else [cur])"
  using assms by (induction ws arbitrary: cur) auto

lemma split_from_trailing:
  assumes "\<forall>c \<in> set ws. isspace c"
  shows "split_from cur (t @ ws) = split_from cur t"
  using assms by (induction t arbitrary: cur) (simp_all add: split_from_spaces)

lemma split_from_leading: "split_from [] (dropWhile isspace t) = split_from [] t"
  by (induction t) simp_all

lemma body_and_tail: "rev (dropWhile p (rev t)) @ rev (takeWhile p (rev t)) = t"
proof -
  have "rev (takeWhile p (rev t) @ dropWhile p (rev t)) = t"
    by (simp only: takeWhile_dropWhile_id rev_rev_ident)
  then show ?thesis by (simp only: rev_append)
qed

lemma split_strip: "split (strip t) = split t"
proof -
  let ?u = "dropWhile isspace t"
  have "split_from [] (strip t) = split_from [] (strip t @ rev (takeWhile isspace (rev ?u)))"
    by (rule split_from_trailing [symmetric]) (auto dest: set_takeWhileD)
  also have "\<dots> = split_from [] ?u"
    unfolding strip_def by (simp only: body_and_tail)
  also have "\<dots> = split_from [] t" by (rule split_from_leading)
  finally show ?thesis by (simp add: split_def)
qed

lemma key_words_strip: "key_words (strip s) = key_words s"
  by (simp add: key_words_def lower_strip split_strip)

lemma identities_agree_without_visual_check:
  assumes "search_visual content = None" and "strip content \<noteq> []"
  shows "main_benchmark_name (Some content) = Some (extract_benchmark_name_from_file (Some content))"
  using assms
  by (simp add: main_benchmark_name_def load_instructions_def extract_benchmark_name_def
      extract_benchmark_name_from_file_def key_words_strip Let_def)
     (simp add: key_words_def)

text \<open>
  Claim C2. For an instructions file that starts with a \<open>VISUAL_CHECK\<close> line, the generation run
  derives the identity from the text without that line, the feedback run from the whole file:
  the two identities differ, and the file the feedback run saves its examples to is not the file
  the generation run loads.
\<close>

theorem identity_differs_with_visual_check:
  "main_benchmark_name (Some visual_check_file) = Some ''retail_companies_research''
   \<and> extract_benchmark_name_from_file (Some visual_check_file) = ''visual_check:_cart_icon''
   \<and> training_file_of ''visual_check:_cart_icon'' \<noteq> specific_file ''retail_companies_research''"
  by code_simp

section \<open>Properties of the signal extractor\<close>

lemma attr_test_add_to_cart: "attr_test ''cart'' ''add-to-cart-btn''"
  by code_simp

lemma job_search_note: "job_search page ps = Some note \<Longrightarrow> prefix ''job-'' note"
  by (induction ps) (auto split: if_splits)

lemma job_notes: "filter (prefix ''cart-'') (notes_of (job_search page ps)) = []"
proof (cases "job_search page ps")
  case None
  then show ?thesis by (simp add: notes_of_def)
next
  case (Some n)
  then obtain rest where "n = ''job-'' @ rest"
    using job_search_note [OF Some] by (auto simp: prefix_def)
  then show ?thesis using Some by (simp add: notes_of_def)
qed

text \<open>
  Claim C9. A page with an element whose class attribute holds \<open>add-to-cart-btn\<close> has
  \<open>has_shopping_cart\<close> set and exactly one cart note among its detected elements, the note of
  \<open>cart\<close>, the first pattern of the list: the search stops at the first pattern that matches.
\<close>

theorem add_to_cart_class_detected:
  assumes "e \<in> set (elements page)"
    and "class_attr e = Some tokens"
    and "''add-to-cart-btn'' \<in> set tokens"
  shows "has_shopping_cart (extract_ui_signals page visual_check)
         \<and> filter (prefix ''cart-'') (detected_elements (extract_ui_signals page visual_check))
             = [''cart-indicator: cart'']
         \<and> cart_search page cart_patterns = Some (''cart-indicator: '' @ hd cart_patterns)"
proof -
  have "list_ex (attr_test ''cart'') tokens"
    using assms(3) attr_test_add_to_cart by (auto simp: list_ex_iff)
  then have "class_matches ''cart'' e"
    using assms(2) by (simp add: class_matches_def)
  then have "filter (class_matches ''cart'') (elements page) \<noteq> []"
    using assms(1) by (auto simp: filter_empty_conv)
  then have cart: "cart_search page cart_patterns = Some ''cart-indicator: cart''"
    by (simp add: cart_patterns_def)
  have first: "hd cart_patterns = ''cart''"
    by (simp add: cart_patterns_def)
  have jobs: "filter (prefix ''cart-'') (notes_of (job_search page job_patterns)) = []"
    by (rule job_notes)
  show ?thesis
    by (simp add: extract_ui_signals_def Let_def cart first jobs notes_of_def [of "Some x" for x])
qed

text \<open>Claim C9 on a page with one such button.\<close>

theorem add_to_cart_class_detected_witness:
  "cart_button \<in> set (elements cart_page)
   \<and> class_attr cart_button = Some [''add-to-cart-btn'']
   \<and> has_shopping_cart (extract_ui_signals cart_page [])
   \<and> filter (prefix ''cart-'') (detected_elements (extract_ui_signals cart_page []))
       = [''cart-indicator: cart'']
   \<and> cart_search cart_page cart_patterns = Some (''cart-indicator: '' @ hd cart_patterns)"
proof -
  have a: "cart_button \<in> set (elements cart_page)" by (simp add: cart_page_def)
  have b: "class_attr cart_button = Some [''add-to-cart-btn'']" by (simp add: cart_button_def)
  have c: "''add-to-cart-btn'' \<in> set [''add-to-cart-btn'']" by simp
  show ?thesis
    using a b add_to_cart_class_detected [OF a b c, of "[]"] by blast
qed

section \<open>Properties of the failure sentinel\<close>

lemma py_eq_Str: "py_eq v (Str s) = (v = Str s)"
  by (cases v) auto

lemma failed_indices_iff:
  "i \<in> set (failed_indices df) \<longleftrightarrow> i < length (rows df) \<and> AI_Description (rows df ! i) = Str website_down"
  by (auto simp: failed_indices_def py_eq_Str)

text \<open>
  Claim C10. With no model configured, or with an error in the scraped data, the description is
  the fixed sentence and no prompt is sent to the model, whatever the other arguments are; and
  \<open>retry_failed\<close> selects exactly the rows whose description equals that sentence.
\<close>

theorem website_down_sentinel:
  assumes "model = None \<or> (\<exists>c cs. error wd = Some (c # cs))"
  shows "generate_ai_description model wd ui instructions visual_check training_examples mistake_patterns
           = Inr (''The Company's website does not work'', [])
         \<and> (i \<in> set (failed_indices df) \<longleftrightarrow>
              i < length (rows df) \<and>
              AI_Description (rows df ! i) = Str ''The Company's website does not work'')"
proof
  show "generate_ai_description model wd ui instructions visual_check training_examples mistake_patterns
           = Inr (''The Company's website does not work'', [])"
    using assms
    by (auto simp: generate_ai_description_def website_down_def split: option.splits list.splits)
  show "i \<in> set (failed_indices df) \<longleftrightarrow>
              i < length (rows df) \<and>
              AI_Description (rows df ! i) = Str ''The Company's website does not work''"
    using failed_indices_iff [of i df] by (simp add: website_down_def)
qed

text \<open>Claim C10 without a model, and with a model on a site that failed to load.\<close>

theorem website_down_sentinel_witness:
  "generate_ai_description None dead_site None [] [] [] [] = Inr (''The Company's website does not work'', [])
   \<and> generate_ai_description (Some (\<lambda>prompt. Inr ''A retailer.'')) dead_site None [] [] [] []
        = Inr (''The Company's website does not work'', [])
   \<and> 1 \<in> set (failed_indices retry_table)
   \<and> 0 \<notin> set (failed_indices retry_table)"
proof -
  have a: "None = None \<or> (\<exists>c cs. error dead_site = Some (c # cs))" by simp
  have b: "Some (\<lambda>prompt::string. (Inr ''A retailer.'' :: string + string)) = None
           \<or> (\<exists>c cs. error dead_site = Some (c # cs))"
    by (simp add: dead_site_def)
  have c: "1 < length (rows retry_table)
           \<and> AI_Description (rows retry_table ! 1) = Str ''The Company's website does not work''"
    by (simp add: retry_table_def sentinel_row_def)
  have d: "AI_Description (rows retry_table ! 0) \<noteq> Str ''The Company's website does not work''"
    by (simp add: retry_table_def other_row_def)
  show ?thesis
    using c d
      website_down_sentinel [of None dead_site None "[]" "[]" "[]" "[]" 1 retry_table, OF a]
      website_down_sentinel [of "Some (\<lambda>prompt. Inr ''A retailer.'')" dead_site None "[]" "[]" "[]" "[]"
         0 retry_table, OF b]
    by blast
qed

section \<open>Properties of the prompt builder\<close>

lemma relevant_Shop: "relevant ''Shop''"
  by code_simp

lemma relevant_About: "relevant ''About us''"
  by code_simp

lemma relevant_Careers: "relevant ''Careers''"
  by code_simp

lemma not_relevant_Blog: "\<not> relevant ''Blog''"
  by code_simp

lemmas relevant_examples = relevant_Shop relevant_About relevant_Careers not_relevant_Blog

text \<open>
  Claim C8. In a list of 40 links whose only three relevant entries stand after the thirtieth,
  the signals section lists none of them: it is empty.
\<close>

theorem nav_links_beyond_30_counterexample:
  "length (nav_links late_site) = 40
   \<and> filter relevant (nav_links late_site) = [''Shop'', ''About us'', ''Careers'']
   \<and> build_signals_section late_site None = []"
  by (simp add: late_site_def late_links_def relevant_examples build_signals_section_def
      signal_sections_def nav_sections_def)

text \<open>
  Claim C8, as amended. When exactly three of the first 30 links are relevant, the navigation
  line lists those three, in their order; it is the first of the sections and, without a meta
  description and UI signals, the whole signals section. Cutting the list after the thirtieth
  link changes nothing.
\<close>

theorem nav_links_first_30:
  assumes "filter relevant (take 30 (nav_links wd)) = [a, b, c]"
  shows "signal_sections wd ui =
           (''NAVIGATION LINKS DETECTED: '' @ a @ '', '' @ b @ '', '' @ c)
             # signal_sections (wd\<lparr>nav_links := []\<rparr>) ui
         \<and> (meta_description wd = [] \<longrightarrow>
              build_signals_section wd None = ''NAVIGATION LINKS DETECTED: '' @ a @ '', '' @ b @ '', '' @ c)
         \<and> signal_sections (wd\<lparr>nav_links := take 30 (nav_links wd)\<rparr>) ui = signal_sections wd ui"
proof -
  have ne: "nav_links wd \<noteq> []" using assms by auto
  have nav: "nav_sections wd = [''NAVIGATION LINKS DETECTED: '' @ a @ '', '' @ b @ '', '' @ c]"
    using ne by (simp add: nav_sections_def assms)
  have nav0: "nav_sections (wd\<lparr>nav_links := []\<rparr>) = []"
    by (simp add: nav_sections_def)
  have ne': "take 30 (nav_links wd) \<noteq> []" using assms by auto
  have nav': "nav_sections (wd\<lparr>nav_links := take 30 (nav_links wd)\<rparr>) = nav_sections wd"
    using ne ne' by (simp add: nav_sections_def)
  show ?thesis
    by (simp add: signal_sections_def build_signals_section_def nav nav0 nav')
qed

theorem nav_links_first_30_witness:
  "filter relevant (take 30 (nav_links early_site)) = [''Shop'', ''About us'', ''Careers'']
   \<and> meta_description early_site = []
   \<and> build_signals_section early_site None = ''NAVIGATION LINKS DETECTED: Shop, About us, Careers''"
proof -
  have a: "filter relevant (take 30 (nav_links early_site)) = [''Shop'', ''About us'', ''Careers'']"
    by (simp add: early_site_def relevant_examples)
  have b: "meta_description early_site = []" by (simp add: early_site_def)
  show ?thesis
    using a b nav_links_first_30 [OF a, of None] by simp
qed

subsection \<open>Empty sections of the prompt\<close>

lemma sublist_across:
  assumes "x \<notin> set h"
  shows "sublist h (a @ x # b) \<longleftrightarrow> sublist h a \<or> sublist h b"
proof
  assume "sublist h (a @ x # b)"
  then consider "sublist h a" | "sublist h (x # b)"
    | xs1 xs2 where "h = xs1 @ xs2" "suffix xs1 a" "prefix xs2 (x # b)"
    by (auto simp: sublist_append)
  then show "sublist h a \<or> sublist h b"
  proof cases
    case 1
    then show ?thesis by simp
  next
    case 2
    then have "prefix h (x # b) \<or> sublist h b" by (simp add: sublist_Cons_right)
    then show ?thesis
    proof
      assume "prefix h (x # b)"
      then have "h = []" using assms by (cases h) auto
      then show ?thesis by simp
    next
      assume "sublist h b"
      then show ?thesis by simp
    qed
  next
    case 3
    from 3(1) assms have "x \<notin> set xs2" by simp
    with 3(3) have "xs2 = []" by (cases xs2) auto
    with 3(1,2) have "suffix h a" by simp
    then show ?thesis by (auto simp: suffix_def)
  qed
next
  assume "sublist h a \<or> sublist h b"
  then show "sublist h (a @ x # b)"
    by (auto simp: sublist_append sublist_Cons_right)
qed

lemma reference_examples_in_prompt:
  "sublist ''REFERENCE EXAMPLES'' (prompt_text instructions visual [] [] signals text) \<longleftrightarrow>
     sublist ''REFERENCE EXAMPLES'' instructions \<or> sublist ''REFERENCE EXAMPLES'' visual
     \<or> sublist ''REFERENCE EXAMPLES'' signals \<or> sublist ''REFERENCE EXAMPLES'' text"
  by (simp add: prompt_text_def sublist_across sublist_Cons_right)

lemma common_mistakes_in_prompt:
  "sublist ''COMMON MISTAKES'' (prompt_text instructions visual [] [] signals text) \<longleftrightarrow>
     sublist ''COMMON MISTAKES'' instructions \<or> sublist ''COMMON MISTAKES'' visual
     \<or> sublist ''COMMON MISTAKES'' signals \<or> sublist ''COMMON MISTAKES'' text"
  by (simp add: prompt_text_def sublist_across sublist_Cons_right)

lemma build_prompt_empty:
  "build_prompt wd instructions visual_check [] [] ui =
     Inr (prompt_text instructions (visual_section visual_check ui) [] []
            (build_signals_section wd ui) (text_content wd))"
  by (simp add: build_prompt_def examples_section_def mistakes_section_def)

text \<open>
  Claim C7. With no training examples and no mistake patterns, both list-backed sections are
  the empty text, so the prompt is the fixed frame around the instructions, the visual-check
  block, the signals section and the website text, with no section header in it: the words
  \<open>REFERENCE EXAMPLES\<close> and \<open>COMMON MISTAKES\<close> occur in the prompt only where one of these four
  texts carries them.
\<close>

theorem empty_lists_no_section:
  "examples_section [] = Inr []
   \<and> mistakes_section [] = []
   \<and> (\<exists>prompt.
         build_prompt wd instructions visual_check [] [] ui = Inr prompt
         \<and> prompt = prompt_text instructions (visual_section visual_check ui) [] []
                      (build_signals_section wd ui) (text_content wd)
         \<and> (sublist ''REFERENCE EXAMPLES'' prompt \<longrightarrow>
                sublist ''REFERENCE EXAMPLES'' instructions
                \<or> sublist ''REFERENCE EXAMPLES'' (visual_section visual_check ui)
                \<or> sublist ''REFERENCE EXAMPLES'' (build_signals_section wd ui)
                \<or> sublist ''REFERENCE EXAMPLES'' (text_content wd))
         \<and> (sublist ''COMMON MISTAKES'' prompt \<longrightarrow>
                sublist ''COMMON MISTAKES'' instructions
                \<or> sublist ''COMMON MISTAKES'' (visual_section visual_check ui)
                \<or> sublist ''COMMON MISTAKES'' (build_signals_section wd ui)
                \<or> sublist ''COMMON MISTAKES'' (text_content wd)))"
  by (simp add: examples_section_def mistakes_section_def build_prompt_empty
      reference_examples_in_prompt common_mistakes_in_prompt)

lemma plain_signals: "build_signals_section plain_site None =
    ''NAVIGATION LINKS DETECTED: Shop\<newline>META DESCRIPTION: Shoes''"
  by code_simp

text \<open>Claim C7 on a page and instructions that do not mention the two headers.\<close>

theorem empty_lists_no_section_witness:
  "\<exists>prompt. build_prompt plain_site ''Describe the company.'' [] [] [] None = Inr prompt
            \<and> \<not> sublist ''REFERENCE EXAMPLES'' prompt
            \<and> \<not> sublist ''COMMON MISTAKES'' prompt"
proof -
  have a: "\<not> sublist ''REFERENCE EXAMPLES'' ''Describe the company.''"
      "\<not> sublist ''COMMON MISTAKES'' ''Describe the company.''"
    by code_simp+
  have b: "\<not> sublist ''REFERENCE EXAMPLES'' (visual_section [] None)"
      "\<not> sublist ''COMMON MISTAKES'' (visual_section [] None)"
    by code_simp+
  have c: "\<not> sublist ''REFERENCE EXAMPLES'' (build_signals_section plain_site None)"
      "\<not> sublist ''COMMON MISTAKES'' (build_signals_section plain_site None)"
    unfolding plain_signals by code_simp+
  have d: "\<not> sublist ''REFERENCE EXAMPLES'' (text_content plain_site)"
      "\<not> sublist ''COMMON MISTAKES'' (text_content plain_site)"
    by code_simp+
  show ?thesis
    using a b c d empty_lists_no_section [of plain_site "''Describe the company.''" "[]" None]
    by blast
qed

section \<open>Properties of the feedback processor\<close>

lemma same_example_record:
  "same_example v (Str (take 200 instructions))
     (training_record instructions url html ai_desc human_desc t) = py_eq url v"
  by (simp add: same_example_def training_record_def get_def get_or_def)

lemma same_example_feedback_record:
  "same_example v (Str (take 200 instructions))
     (training_record instructions url html ai_desc human_desc t @ [(''discrepancy'', d)]) = py_eq url v"
  by (simp add: same_example_def training_record_def get_def get_or_def)

lemma list_ex_examples_for:
  "list_ex (same_example url (Str context)) store \<longleftrightarrow> examples_for url context store \<noteq> []"
  by (auto simp: examples_for_def list_ex_iff filter_empty_conv)

lemma process_row_same:
  assumes "\<not> differing r" and "process_row now instructions has_html r st = Inr st'"
  shows "st' = st"
  using assms
  by (auto simp: process_row_def differing_def Let_def split: pyval.splits if_splits)

lemma process_row_counts:
  assumes "process_row now instructions has_html r st = Inr st'"
  shows "length (examples_for (Str u) (take 200 instructions) (training_data st')) =
           (if differing r \<and> URL r = Str u
               \<and> examples_for (Str u) (take 200 instructions) (training_data st) = []
            then 1 else length (examples_for (Str u) (take 200 instructions) (training_data st)))
         \<and> length (examples_for (Str u) (take 200 instructions) (feedback_log st')) =
           length (examples_for (Str u) (take 200 instructions) (feedback_log st))
             + (if differing r \<and> URL r = Str u then 1 else 0)"
proof (cases "differing r")
  case False
  then show ?thesis using process_row_same [OF False assms] by simp
next
  case True
  then obtain a h where ah: "AI_Description r = Str a" "Your_Correction r = Str h" "strip a \<noteq> strip h"
    by (auto simp: differing_def split: pyval.splits)
  show ?thesis
  proof (cases "URL r = Str u")
    case same: True
    show ?thesis
      using assms True same ah
      by (auto simp: process_row_def Let_def list_ex_examples_for examples_for_def
          same_example_record same_example_feedback_record)
  next
    case other: False
    show ?thesis
      using assms True other ah
      by (auto simp: process_row_def Let_def examples_for_def py_eq_Str
          same_example_record same_example_feedback_record split: if_splits)
  qed
qed

lemma process_rows_counts:
  assumes "process_rows now instructions has_html rs st = Inr st'"
  shows "length (examples_for (Str u) (take 200 instructions) (training_data st')) =
           (if filter (\<lambda>r. differing r \<and> URL r = Str u) rs \<noteq> []
               \<and> examples_for (Str u) (take 200 instructions) (training_data st) = []
            then 1 else length (examples_for (Str u) (take 200 instructions) (training_data st)))
         \<and> length (examples_for (Str u) (take 200 instructions) (feedback_log st')) =
           length (examples_for (Str u) (take 200 instructions) (feedback_log st))
             + length (filter (\<lambda>r. differing r \<and> URL r = Str u) rs)"
  using assms
proof (induction rs arbitrary: st)
  case Nil
  then show ?case by simp
next
  case (Cons r rs)
  from Cons.prems obtain st1 where
    r: "process_row now instructions has_html r st = Inr st1" and
    rs: "process_rows now instructions has_html rs st1 = Inr st'"
    by (auto split: sum.splits)
  show ?case
    using process_row_counts [OF r, of u] Cons.IH [OF rs]
    by (auto split: if_splits)
qed

lemma process_row_grows:
  assumes "process_row now instructions has_html r st = Inr st'"
  shows "prefix (training_data st) (training_data st') \<and> prefix (feedback_log st) (feedback_log st')"
  using assms
  by (auto simp: process_row_def Let_def split: pyval.splits if_splits)

lemma process_rows_grows:
  assumes "process_rows now instructions has_html rs st = Inr st'"
  shows "prefix (training_data st) (training_data st') \<and> prefix (feedback_log st) (feedback_log st')"
  using assms
proof (induction rs arbitrary: st)
  case Nil
  then show ?case by simp
next
  case (Cons r rs)
  from Cons.prems obtain st1 where
    r: "process_row now instructions has_html r st = Inr st1" and
    rs: "process_rows now instructions has_html rs st1 = Inr st'"
    by (auto split: sum.splits)
  show ?case
    using process_row_grows [OF r] Cons.IH [OF rs]
    by (auto intro: prefix_order.order_trans)
qed

lemma process_row_identical:
  assumes "AI_Description r = Str ai_desc" and "Your_Correction r = Str human_desc"
    and "strip ai_desc = strip human_desc"
  shows "process_row now instructions has_html r st = Inr st"
  using assms by (simp add: process_row_def)

lemma process_rows_append:
  "process_rows now instructions has_html (xs @ ys) st =
     (case process_rows now instructions has_html xs st of
        Inl e \<Rightarrow> Inl e
      | Inr st' \<Rightarrow> process_rows now instructions has_html ys st')"
  by (induction xs arbitrary: st) (auto split: sum.splits)

lemma process_rows_identical:
  assumes "AI_Description r = Str ai_desc" and "Your_Correction r = Str human_desc"
    and "strip ai_desc = strip human_desc"
  shows "process_rows now instructions has_html (xs @ r # ys) st =
         process_rows now instructions has_html (xs @ ys) st"
  by (simp add: process_rows_append process_row_identical [OF assms] split: sum.splits)

lemma load_after_save:
  "load_json_file (save_json_file fs q data) p = (if p = q then data else load_json_file fs p)"
  by (simp add: load_json_file_def save_json_file_def)

lemma training_file_not_log: "training_file_of benchmark_name \<noteq> feedback_log_file"
  by (simp add: training_file_of_def feedback_log_file_def)

lemma process_feedback_alt:
  "process_feedback now fs =
     (if corrections fs = [] then Inr fs
      else case process_rows now (read_instructions fs) (has_html_snippet fs) (corrections fs)
                  (start_state fs) of
             Inl e \<Rightarrow> Inl e
           | Inr st \<Rightarrow>
               Inr (save_json_file (save_json_file fs (training_file fs) (training_data st))
                      feedback_log_file (feedback_log st)))"
  unfolding process_feedback_def corrections_def read_instructions_def has_html_snippet_def
    start_state_def training_file_def Let_def
  by (simp split: stored.splits)

lemma process_feedback_inputs:
  assumes "process_feedback now fs = Inr fs'"
  shows "output_file fs' = output_file fs \<and> instructions_file fs' = instructions_file fs"
  using assms
  by (auto simp: process_feedback_alt save_json_file_def split: if_splits sum.splits)

lemma process_feedback_same_run:
  assumes "process_feedback now fs = Inr fs'"
  shows "corrections fs' = corrections fs \<and> benchmark_context fs' = benchmark_context fs
         \<and> training_file fs' = training_file fs"
  using process_feedback_inputs [OF assms]
  by (simp add: corrections_def benchmark_context_def read_instructions_def training_file_def)

lemma process_row_succeeds:
  assumes "text_row r"
  shows "\<exists>st'. process_row now instructions has_html r st = Inr st'"
  using assms
  by (auto simp: text_row_def process_row_def Let_def split: pyval.splits)

lemma process_rows_succeeds:
  assumes "list_all text_row rs"
  shows "\<exists>st'. process_rows now instructions has_html rs st = Inr st'"
  using assms
proof (induction rs arbitrary: st)
  case Nil
  then show ?case by simp
next
  case (Cons r rs)
  then obtain st1 where "process_row now instructions has_html r st = Inr st1"
    using process_row_succeeds [of r now instructions has_html st] by auto
  then show ?case using Cons by simp
qed

lemma process_feedback_succeeds:
  assumes "list_all text_row (corrections fs)"
  shows "\<exists>fs'. process_feedback now fs = Inr fs'"
proof -
  obtain st where "process_rows now (read_instructions fs) (has_html_snippet fs) (corrections fs)
                     (start_state fs) = Inr st"
    using process_rows_succeeds [OF assms] by blast
  then show ?thesis by (simp add: process_feedback_alt)
qed

lemma process_feedback_counts:
  assumes "process_feedback now fs = Inr fs'"
  shows "examples_in (Str u) fs' (training_file fs') =
           (if 1 \<le> differing_for (Str u) fs \<and> examples_in (Str u) fs (training_file fs) = 0
            then 1 else examples_in (Str u) fs (training_file fs))
         \<and> examples_in (Str u) fs' feedback_log_file =
             examples_in (Str u) fs feedback_log_file + differing_for (Str u) fs"
proof (cases "corrections fs = []")
  case True
  then have "fs' = fs" using assms by (simp add: process_feedback_alt)
  then show ?thesis using True by (simp add: differing_for_def)
next
  case False
  then obtain st where
    run: "process_rows now (read_instructions fs) (has_html_snippet fs) (corrections fs)
            (start_state fs) = Inr st" and
    fs': "fs' = save_json_file (save_json_file fs (training_file fs) (training_data st))
                  feedback_log_file (feedback_log st)"
    using assms by (auto simp: process_feedback_alt split: sum.splits)
  have same: "benchmark_context fs' = benchmark_context fs" "training_file fs' = training_file fs"
    using process_feedback_same_run [OF assms] by simp_all
  have tf: "training_file fs \<noteq> feedback_log_file"
    by (simp add: training_file_def training_file_not_log)
  have loads: "load_json_file fs' (training_file fs) = training_data st"
      "load_json_file fs' feedback_log_file = feedback_log st"
    using tf by (simp_all add: fs' load_after_save)
  have k: "(1 \<le> differing_for (Str u) fs) =
           (filter (\<lambda>r. differing r \<and> URL r = Str u) (corrections fs) \<noteq> [])"
    by (cases "filter (\<lambda>r. differing r \<and> URL r = Str u) (corrections fs)")
       (simp_all add: differing_for_def)
  have c: "(examples_in (Str u) fs (training_file fs) = 0) =
           (examples_for (Str u) (take 200 (read_instructions fs))
              (training_data (start_state fs)) = [])"
    by (simp add: examples_in_def benchmark_context_def start_state_def)
  have t0: "examples_in (Str u) fs (training_file fs) =
            length (examples_for (Str u) (take 200 (read_instructions fs))
              (training_data (start_state fs)))"
    by (simp add: examples_in_def benchmark_context_def start_state_def)
  have l0: "examples_in (Str u) fs feedback_log_file =
            length (examples_for (Str u) (take 200 (read_instructions fs))
              (feedback_log (start_state fs)))"
    by (simp add: examples_in_def benchmark_context_def start_state_def)
  have t1: "examples_in (Str u) fs' (training_file fs') =
            length (examples_for (Str u) (take 200 (read_instructions fs)) (training_data st))"
    unfolding examples_in_def same loads by (simp add: benchmark_context_def)
  have l1: "examples_in (Str u) fs' feedback_log_file =
            length (examples_for (Str u) (take 200 (read_instructions fs)) (feedback_log st))"
    unfolding examples_in_def same loads by (simp add: benchmark_context_def)
  have d: "differing_for (Str u) fs =
           length (filter (\<lambda>r. differing r \<and> URL r = Str u) (corrections fs))"
    by (simp add: differing_for_def)
  show ?thesis
    unfolding k c t1 l1
    using process_rows_counts [OF run, of u]
    by (simp only: t0 l0 d)
qed

text \<open>
  Claim C4. A run of \<open>process_feedback\<close> that saves anything only appends: what every JSON
  file held before the run (the training store and the feedback log among them) is a prefix of
  what it holds after. A run that stops early or raises saves nothing.
\<close>

theorem stores_only_grow:
  assumes "process_feedback now fs = Inr fs'"
  shows "prefix (load_json_file fs filepath) (load_json_file fs' filepath)"
proof (cases "corrections fs = []")
  case True
  then have "fs' = fs" using assms by (simp add: process_feedback_alt)
  then show ?thesis by simp
next
  case False
  then obtain st where
    run: "process_rows now (read_instructions fs) (has_html_snippet fs) (corrections fs)
            (start_state fs) = Inr st" and
    fs': "fs' = save_json_file (save_json_file fs (training_file fs) (training_data st))
                  feedback_log_file (feedback_log st)"
    using assms by (auto simp: process_feedback_alt split: sum.splits)
  have "prefix (load_json_file fs (training_file fs)) (training_data st)"
    and "prefix (load_json_file fs feedback_log_file) (feedback_log st)"
    using process_rows_grows [OF run] by (simp_all add: start_state_def)
  then show ?thesis by (simp add: fs' load_after_save)
qed

lemma feedback_files_corrections: "corrections feedback_files = [shop_row, agreed_row, shop_row]"
  by (simp add: corrections_def feedback_files_def feedback_table_def required_cols_def
      has_correction_def shop_row_def agreed_row_def)

lemma feedback_files_text: "list_all text_row (corrections feedback_files)"
  by (simp add: feedback_files_corrections text_row_def shop_row_def agreed_row_def)

lemma feedback_files_training: "training_file feedback_files = ''learning/training_retail_shops.json''"
  by code_simp

text \<open>Claim C4 on files whose training store already holds one record.\<close>

theorem stores_only_grow_witness:
  "\<exists>fs'. process_feedback clock feedback_files = Inr fs'
         \<and> load_json_file feedback_files ''learning/training_retail_shops.json'' = [old_example]
         \<and> prefix [old_example] (load_json_file fs' ''learning/training_retail_shops.json'')"
proof -
  obtain fs' where run: "process_feedback clock feedback_files = Inr fs'"
    using process_feedback_succeeds [OF feedback_files_text] by blast
  have old: "load_json_file feedback_files ''learning/training_retail_shops.json'' = [old_example]"
    by (simp add: load_json_file_def feedback_files_def)
  show ?thesis
    using run old stores_only_grow [OF run, of "''learning/training_retail_shops.json''"]
    by simp
qed

lemma without_row_parts:
  assumes "output_file fs = Content df"
  shows "read_instructions (fs\<lparr>output_file := Content (df\<lparr>rows := rs\<rparr>)\<rparr>) = read_instructions fs"
    and "has_html_snippet (fs\<lparr>output_file := Content (df\<lparr>rows := rs\<rparr>)\<rparr>) = has_html_snippet fs"
    and "training_file (fs\<lparr>output_file := Content (df\<lparr>rows := rs\<rparr>)\<rparr>) = training_file fs"
    and "start_state (fs\<lparr>output_file := Content (df\<lparr>rows := rs\<rparr>)\<rparr>) = start_state fs"
    and "load_json_file (fs\<lparr>output_file := Content (df\<lparr>rows := rs\<rparr>)\<rparr>) p = load_json_file fs p"
  using assms
  by (simp_all add: read_instructions_def has_html_snippet_def training_file_def start_state_def
      load_json_file_def)

lemma load_saved_twice:
  "load_json_file (save_json_file (save_json_file fs p x) q y) filepath =
     (if filepath = q then y else if filepath = p then x else load_json_file fs filepath)"
  by (simp add: load_after_save)

text \<open>
  Claim C3. A row whose correction equals the AI description after trimming leaves the state of
  the loop as it is; and a run over a table with such a row ends as the run over the table
  without it: with the same error, or with the same content in every JSON file.
\<close>

theorem identical_correction_skipped:
  assumes "AI_Description r = Str ai_desc" and "Your_Correction r = Str human_desc"
    and "strip ai_desc = strip human_desc"
    and "output_file fs = Content df" and "rows df = xs @ r # ys"
  shows "process_row now instructions has_html r st = Inr st
         \<and> map_sum id (\<lambda>fs'. load_json_file fs' filepath) (process_feedback now fs) =
             map_sum id (\<lambda>fs'. load_json_file fs' filepath)
               (process_feedback now (fs\<lparr>output_file := Content (df\<lparr>rows := xs @ ys\<rparr>)\<rparr>))"
proof
  show "process_row now instructions has_html r st = Inr st"
    by (rule process_row_identical [OF assms(1-3)])
next
  let ?fs = "fs\<lparr>output_file := Content (df\<lparr>rows := xs @ ys\<rparr>)\<rparr>"
  let ?load = "\<lambda>fs'. load_json_file fs' filepath"
  let ?run = "\<lambda>rs. process_rows now (read_instructions fs) (has_html_snippet fs) rs (start_state fs)"
  note parts = without_row_parts [OF assms(4), of "xs @ ys"]
  show "map_sum id ?load (process_feedback now fs) = map_sum id ?load (process_feedback now ?fs)"
  proof (cases "list_ex (\<lambda>col. col \<notin> set (columns df)) required_cols")
    case True
    then have "corrections fs = []" "corrections ?fs = []"
      using assms(4) by (simp_all add: corrections_def)
    then show ?thesis by (simp add: process_feedback_alt parts)
  next
    case False
    have c1: "corrections fs = filter has_correction xs @ filter has_correction [r]
                @ filter has_correction ys"
      using False assms(4,5) by (simp add: corrections_def)
    have c2: "corrections ?fs = filter has_correction xs @ filter has_correction ys"
      using False by (simp add: corrections_def)
    have same: "?run (corrections fs) = ?run (corrections ?fs)"
    proof (cases "has_correction r")
      case True
      then show ?thesis
        using process_rows_identical [OF assms(1-3)] by (simp add: c1 c2)
    next
      case False
      then show ?thesis by (simp add: c1 c2)
    qed
    show ?thesis
    proof (cases "corrections ?fs = []")
      case False
      then have "corrections fs \<noteq> []" by (simp add: c1 c2)
      then show ?thesis
        using False same
        by (simp add: process_feedback_alt parts load_saved_twice split: sum.splits)
    next
      case True
      show ?thesis
      proof (cases "corrections fs = []")
        case True
        with \<open>corrections ?fs = []\<close> show ?thesis
          by (simp add: process_feedback_alt parts)
      next
        case False
        from same True have "?run (corrections fs) = Inr (start_state fs)" by simp
        with True False show ?thesis
          by (simp add: process_feedback_alt parts load_saved_twice start_state_def)
      qed
    qed
  qed
qed

lemma agreed_row_identical: "strip ''A bank.'' = strip '' A bank. ''"
  by code_simp

text \<open>Claim C3 on a table of three rows, the second of which only repeats the AI description.\<close>

theorem identical_correction_skipped_witness:
  "process_row clock ''retail shops'' False agreed_row (start_state feedback_files)
     = Inr (start_state feedback_files)
   \<and> map_sum id (\<lambda>fs'. load_json_file fs' feedback_log_file) (process_feedback clock feedback_files) =
       map_sum id (\<lambda>fs'. load_json_file fs' feedback_log_file)
         (process_feedback clock
            (feedback_files\<lparr>output_file := Content (feedback_table\<lparr>rows := [shop_row] @ [shop_row]\<rparr>)\<rparr>))"
proof -
  have a: "AI_Description agreed_row = Str ''A bank.''" by (simp add: agreed_row_def)
  have b: "Your_Correction agreed_row = Str '' A bank. ''" by (simp add: agreed_row_def)
  have c: "output_file feedback_files = Content feedback_table" by (simp add: feedback_files_def)
  have d: "rows feedback_table = [shop_row] @ agreed_row # [shop_row]" by (simp add: feedback_table_def)
  show ?thesis
    by (rule identical_correction_skipped [OF a b agreed_row_identical c d])
qed

lemma with_table_parts:
  "corrections (fs\<lparr>output_file := t\<rparr>) = corrections (fs'\<lparr>output_file := t\<rparr>)"
  "benchmark_context (fs\<lparr>output_file := t\<rparr>) = benchmark_context fs"
  "training_file (fs\<lparr>output_file := t\<rparr>) = training_file fs"
  "load_json_file (fs\<lparr>output_file := t\<rparr>) p = load_json_file fs p"
  by (simp_all add: corrections_def benchmark_context_def read_instructions_def training_file_def
      load_json_file_def)

lemma with_table_counts:
  "examples_in url (fs\<lparr>output_file := t\<rparr>) p = examples_in url fs p"
  "differing_for url (fs\<lparr>output_file := t\<rparr>) = differing_for url (fs'\<lparr>output_file := t\<rparr>)"
  by (simp_all add: examples_in_def differing_for_def with_table_parts(2,4) corrections_def)

text \<open>
  Claim C1. Take a run in which every processed row holds texts, at least one of them has the
  URL \<open>u\<close> and a correction that differs from the AI description, and the training store
  holds at most one record for \<open>u\<close> and the benchmark context. The run completes; afterwards
  the training store holds exactly one record for the pair, and the feedback log has gained one
  entry for the pair per such row (two for two rows). A second run over the stores the first
  one left, with the same instructions and any table, again leaves exactly one record and adds
  one log entry per such row of its table.
\<close>

theorem feedback_deduplicates:
  assumes "list_all text_row (corrections fs)"
    and "list_all text_row (corrections (fs\<lparr>output_file := table2\<rparr>))"
    and "examples_in (Str u) fs (training_file fs) \<le> 1"
    and "1 \<le> differing_for (Str u) fs"
  shows "\<exists>fs1. process_feedback now fs = Inr fs1
           \<and> examples_in (Str u) fs1 (training_file fs1) = 1
           \<and> examples_in (Str u) fs1 feedback_log_file =
               examples_in (Str u) fs feedback_log_file + differing_for (Str u) fs
           \<and> (\<exists>fs2. process_feedback now2 (fs1\<lparr>output_file := table2\<rparr>) = Inr fs2
                  \<and> examples_in (Str u) fs2 (training_file fs2) = 1
                  \<and> examples_in (Str u) fs2 feedback_log_file =
                      examples_in (Str u) fs feedback_log_file + differing_for (Str u) fs
                        + differing_for (Str u) (fs\<lparr>output_file := table2\<rparr>))"
proof -
  obtain fs1 where run1: "process_feedback now fs = Inr fs1"
    using process_feedback_succeeds [OF assms(1)] by blast
  note counts1 = process_feedback_counts [OF run1, of u]
  have t1: "examples_in (Str u) fs1 (training_file fs1) = 1"
    using counts1 assms(3,4) by (auto split: if_splits)
  have l1: "examples_in (Str u) fs1 feedback_log_file =
            examples_in (Str u) fs feedback_log_file + differing_for (Str u) fs"
    using counts1 by simp
  let ?fsB = "fs1\<lparr>output_file := table2\<rparr>"
  have "corrections ?fsB = corrections (fs\<lparr>output_file := table2\<rparr>)"
    by (rule with_table_parts(1))
  then have "list_all text_row (corrections ?fsB)" using assms(2) by simp
  then obtain fs2 where run2: "process_feedback now2 ?fsB = Inr fs2"
    using process_feedback_succeeds by blast
  note counts2 = process_feedback_counts [OF run2, of u]
  have tB: "examples_in (Str u) ?fsB (training_file ?fsB) = 1"
    using t1 by (simp add: with_table_counts(1) with_table_parts(3))
  have lB: "examples_in (Str u) ?fsB feedback_log_file = examples_in (Str u) fs1 feedback_log_file"
    by (rule with_table_counts(1))
  have kB: "differing_for (Str u) ?fsB = differing_for (Str u) (fs\<lparr>output_file := table2\<rparr>)"
    by (rule with_table_counts(2))
  have t2: "examples_in (Str u) fs2 (training_file fs2) = 1"
    using counts2 tB by simp
  have l2: "examples_in (Str u) fs2 feedback_log_file =
            examples_in (Str u) fs feedback_log_file + differing_for (Str u) fs
              + differing_for (Str u) (fs\<lparr>output_file := table2\<rparr>)"
    using counts2 lB kB l1 by simp
  show ?thesis using run1 t1 l1 run2 t2 l2 by blast
qed

lemma feedback_files_store: "examples_in (Str ''shop.example'') feedback_files (training_file feedback_files) = 0"
proof -
  have "load_json_file feedback_files ''learning/training_retail_shops.json'' = [old_example]"
    by (simp add: load_json_file_def feedback_files_def)
  moreover have "\<not> same_example (Str ''shop.example'') (Str (benchmark_context feedback_files)) old_example"
    by (simp add: same_example_def get_def get_or_def old_example_def)
  ultimately show ?thesis
    by (simp add: examples_in_def examples_for_def feedback_files_training)
qed

lemma shop_row_differing: "differing shop_row"
proof -
  have "strip ''A retailer.'' \<noteq> strip ''An online shoe retailer.''" by code_simp
  then show ?thesis by (simp add: differing_def shop_row_def)
qed

lemma agreed_row_other: "URL agreed_row \<noteq> Str ''shop.example''"
  by (simp add: agreed_row_def)

lemma shop_row_url: "URL shop_row = Str ''shop.example''"
  by (simp add: shop_row_def)

lemma feedback_files_differing: "differing_for (Str ''shop.example'') feedback_files = 2"
  by (simp add: differing_for_def feedback_files_corrections shop_row_differing agreed_row_other
      shop_row_url)

lemma feedback_files_log: "examples_in (Str ''shop.example'') feedback_files feedback_log_file = 0"
proof -
  have "load_json_file feedback_files feedback_log_file = []"
    by (simp add: load_json_file_def feedback_files_def feedback_log_file_def)
  then show ?thesis by (simp add: examples_in_def examples_for_def)
qed

lemma feedback_files_same_table:
  "feedback_files\<lparr>output_file := Content feedback_table\<rparr> = feedback_files"
  by (simp add: feedback_files_def)

text \<open>
  Claim C1 on a table with two differing corrections for one URL, processed twice: one training
  record, two log entries after the first run and four after the second.
\<close>

theorem feedback_deduplicates_witness:
  "\<exists>fs1 fs2.
      process_feedback clock feedback_files = Inr fs1
      \<and> examples_in (Str ''shop.example'') fs1 (training_file fs1) = 1
      \<and> examples_in (Str ''shop.example'') fs1 feedback_log_file = 2
      \<and> process_feedback clock (fs1\<lparr>output_file := Content feedback_table\<rparr>) = Inr fs2
      \<and> examples_in (Str ''shop.example'') fs2 (training_file fs2) = 1
      \<and> examples_in (Str ''shop.example'') fs2 feedback_log_file = 4"
proof -
  have a: "list_all text_row (corrections feedback_files)"
    by (rule feedback_files_text)
  have b: "list_all text_row (corrections (feedback_files\<lparr>output_file := Content feedback_table\<rparr>))"
    unfolding feedback_files_same_table by (rule a)
  have c: "examples_in (Str ''shop.example'') feedback_files (training_file feedback_files) \<le> 1"
    unfolding feedback_files_store by simp
  have d: "1 \<le> differing_for (Str ''shop.example'') feedback_files"
    unfolding feedback_files_differing by simp
  obtain fs1 fs2 where
    r1: "process_feedback clock feedback_files = Inr fs1" and
    t1: "examples_in (Str ''shop.example'') fs1 (training_file fs1) = 1" and
    l1: "examples_in (Str ''shop.example'') fs1 feedback_log_file =
           examples_in (Str ''shop.example'') feedback_files feedback_log_file
             + differing_for (Str ''shop.example'') feedback_files" and
    r2: "process_feedback clock (fs1\<lparr>output_file := Content feedback_table\<rparr>) = Inr fs2" and
    t2: "examples_in (Str ''shop.example'') fs2 (training_file fs2) = 1" and
    l2: "examples_in (Str ''shop.example'') fs2 feedback_log_file =
           examples_in (Str ''shop.example'') feedback_files feedback_log_file
             + differing_for (Str ''shop.example'') feedback_files
             + differing_for (Str ''shop.example'')
                 (feedback_files\<lparr>output_file := Content feedback_table\<rparr>)"
    using feedback_deduplicates [OF a b c d, of clock clock] by blast
  have l1': "examples_in (Str ''shop.example'') fs1 feedback_log_file = 2"
    using l1 unfolding feedback_files_log feedback_files_differing by simp
  have l2': "examples_in (Str ''shop.example'') fs2 feedback_log_file = 4"
    using l2 unfolding feedback_files_same_table feedback_files_log feedback_files_differing by simp
  show ?thesis
    using r1 t1 l1' r2 t2 l2' by blast
qed

end
